theory Spec2Isabelle
  imports Main "HOL-Library.Sublist"
begin

section \<open>The email sender tool (app/tool/email_sender.py)\<close>

text \<open>
  The tool reads an SMTP configuration from the application configuration, builds a
  MIME message, hands it to \<open>smtplib\<close> and reports the outcome as an \<open>EmailResult\<close>.
  Where the source calls a library (pydantic, \<open>email.mime\<close>, \<open>smtplib\<close>) and the outcome
  depends on the server, on chance or on the encoding of a text, the outcome is a
  parameter of the model: a call either returns or raises an exception with a text
  \<open>str(e)\<close>, and the properties are stated for every such behaviour. Exceptions are the
  subclasses of Python's \<open>Exception\<close>; the \<open>await\<close> on the worker thread is modelled as a
  call, and the log entries are not part of the model.
\<close>

subsection \<open>Exceptions\<close>

datatype py_exception =
    AttributeError string
  | ValidationError string
  | LibraryError string

fun str_exn :: "py_exception \<Rightarrow> string" where
  "str_exn (AttributeError t) = t"
| "str_exn (ValidationError t) = t"
| "str_exn (LibraryError t) = t"

subsection \<open>Data model\<close>

text \<open>\<open>class EmailConfig(BaseModel)\<close>, lines 14 to 20.\<close>

record EmailConfig =
  smtp_server :: string
  smtp_port :: int
  smtp_username :: string
  smtp_password :: string
  use_tls :: bool

text \<open>
  The object \<open>config.email_config\<close> of the application configuration, as the resolver
  sees it. Reading an attribute either raises \<open>AttributeError\<close> (\<open>Missing\<close>), or gives
  a value that pydantic's validation of the field rejects (\<open>Rejected\<close>: \<open>None\<close>, or
  \<open>"abc"\<close> for the port), or gives a value that the validation accepts as \<open>v\<close>, after
  converting it where it converts (\<open>Accepted v\<close>: \<open>587\<close> and also \<open>"587"\<close> for the
  port). The application configuration is \<open>None\<close> when
  \<open>hasattr(config, 'email_config')\<close> is false.
\<close>

datatype 'a attribute = Missing | Rejected | Accepted 'a

record email_section =
  cfg_smtp_server :: "string attribute"
  cfg_smtp_port :: "int attribute"
  cfg_smtp_username :: "string attribute"
  cfg_smtp_password :: "string attribute"
  cfg_use_tls :: "bool attribute"

type_synonym app_config = "email_section option"

text \<open>
  A \<open>MIMEMultipart\<close> message: its headers in the order they were added, and the
  attached parts. A part made by \<open>MIMEText(body, subtype)\<close> has headers of its own, and
  keeps the subtype and the text it was made from.
\<close>

record mime_text =
  text_headers :: "(string \<times> string) list"
  text_subtype :: string
  text_payload :: string

record mime_message =
  headers :: "(string \<times> string) list"
  payload :: "mime_text list"

text \<open>
  What \<open>msg[name]\<close> gives for a header that exists: the stored string, or an
  \<open>email.header.Header\<close> object made from it.
\<close>

datatype header_value = StrValue string | HeaderObject string

text \<open>
  Modelled from the spec: the base class \<open>ToolResult\<close> (app/tool/base.py) is not among
  the sources; it gives \<open>EmailResult\<close> the optional fields \<open>error\<close> and \<open>output\<close>, both
  unset by default. Lines 23 to 27 add the other three fields.
\<close>

record EmailResult =
  recipient :: string
  subject :: string
  message_sent :: bool
  error :: "string option"
  "output" :: "string option"

subsection \<open>The libraries and the server\<close>

text \<open>
  The operations that \<open>smtplib\<close> performs on the connection, in the order they happen.
  \<open>SendMail\<close> records the envelope sender, the recipient list and the message as it is
  when \<open>as_string\<close> has serialised it: the text handed to \<open>sendmail\<close> is the
  serialisation of that message.
\<close>

datatype smtp_event =
    Connect string int
  | StartTLS
  | Login string string
  | SendMail string "string list" mime_message
  | Quit

text \<open>
  For each library call that can raise, \<open>None\<close> when it returns and \<open>Some t\<close> when it
  raises an exception \<open>e\<close> with \<open>str(e) = t\<close>. Besides:
  \<^item> \<open>validation_text\<close> is the text of the \<open>ValidationError\<close> that pydantic raises for the
    named model and the named fields;
  \<^item> \<open>has_surrogates\<close> tells whether a string holds a lone surrogate, that is, whether
    \<open>s.encode()\<close> fails (\<open>email.utils._has_surrogates\<close>);
  \<^item> \<open>as_string_boundary\<close> is the boundary that \<open>as_string\<close> chooses at random and
    writes into the \<open>Content-Type\<close> header of the message, or \<open>None\<close> when it raises
    before it has done so.
\<close>

record environment =
  validation_text :: "string \<Rightarrow> string list \<Rightarrow> string"
  has_surrogates :: "string \<Rightarrow> bool"
  MIMEText_raises :: "string \<Rightarrow> string \<Rightarrow> string option"
  as_string_raises :: "mime_message \<Rightarrow> string option"
  as_string_boundary :: "mime_message \<Rightarrow> string option"
  SMTP_raises :: "string \<Rightarrow> int \<Rightarrow> string option"
  starttls_raises :: "string option"
  login_raises :: "string \<Rightarrow> string \<Rightarrow> string option"
  sendmail_raises :: "string \<Rightarrow> string list \<Rightarrow> mime_message \<Rightarrow> string option"
  quit_raises :: "string option"

subsection \<open>Python helpers\<close>

text \<open>Truth value of an optional string and of an optional list, as \<open>if x:\<close> tests it.\<close>

fun truthy :: "'a list option \<Rightarrow> bool" where
  "truthy None = False"
| "truthy (Some xs) = (xs \<noteq> [])"

text \<open>\<open>sep.join(xs)\<close>.\<close>

fun join :: "string \<Rightarrow> string list \<Rightarrow> string" where
  "join sep [] = []"
| "join sep [x] = x"
| "join sep (x # y # ys) = x @ sep @ join sep (y # ys)"

definition apostrophe :: string where
  "apostrophe = [CHR 0x27]"

definition quotation_mark :: string where
  "quotation_mark = [CHR 0x22]"

text \<open>A text is ASCII when no character of it has the eighth bit set.\<close>

definition is_ascii :: "string \<Rightarrow> bool" where
  "is_ascii s = list_all (\<lambda>c. \<not> digit7 c) s"

subsection \<open>The MIME message\<close>

text \<open>
  \<open>MIMEMultipart()\<close> starts with two headers of its own; \<open>msg[k] = v\<close> appends a
  header (Python compares header names without case; every name below is a literal).
\<close>

definition MIMEMultipart :: mime_message where
  "MIMEMultipart =
     \<lparr>headers = [(''Content-Type'', ''multipart/mixed''), (''MIME-Version'', ''1.0'')],
      payload = []\<rparr>"

definition set_header :: "mime_message \<Rightarrow> string \<Rightarrow> string \<Rightarrow> mime_message" where
  "set_header msg k v = msg\<lparr>headers := headers msg @ [(k, v)]\<rparr>"

text \<open>
  The string stored under a header name, the first of that name; and \<open>msg[k]\<close>, which
  wraps a stored string that holds a lone surrogate into a \<open>Header\<close> object.
\<close>

definition stored_header :: "mime_message \<Rightarrow> string \<Rightarrow> string option" where
  "stored_header msg k = map_of (headers msg) k"

definition get_header :: "environment \<Rightarrow> mime_message \<Rightarrow> string \<Rightarrow> header_value option" where
  "get_header env msg k =
     (case stored_header msg k of
        None \<Rightarrow> None
      | Some v \<Rightarrow> Some (if has_surrogates env v then HeaderObject v else StrValue v))"

definition attach :: "mime_message \<Rightarrow> mime_text \<Rightarrow> mime_message" where
  "attach msg part = msg\<lparr>payload := payload msg @ [part]\<rparr>"

text \<open>
  \<open>MIMEText(body, subtype)\<close>: the character set is \<open>us-ascii\<close> for an ASCII text and
  \<open>utf-8\<close> otherwise, and the transfer encoding follows the character set.
\<close>

definition text_content_type :: "string \<Rightarrow> string \<Rightarrow> string" where
  "text_content_type subtype body =
     ''text/'' @ subtype @ ''; charset='' @ quotation_mark
       @ (if is_ascii body then ''us-ascii'' else ''utf-8'') @ quotation_mark"

definition text_transfer_encoding :: "string \<Rightarrow> string" where
  "text_transfer_encoding body = (if is_ascii body then ''7bit'' else ''base64'')"

definition MIMEText :: "environment \<Rightarrow> string \<Rightarrow> string \<Rightarrow> py_exception + mime_text" where
  "MIMEText env body subtype =
     (case MIMEText_raises env body subtype of
        Some t \<Rightarrow> Inl (LibraryError t)
      | None \<Rightarrow>
          Inr \<lparr>text_headers =
                 [(''Content-Type'', text_content_type subtype body),
                  (''MIME-Version'', ''1.0''),
                  (''Content-Transfer-Encoding'', text_transfer_encoding body)],
               text_subtype = subtype, text_payload = body\<rparr>)"

text \<open>
  \<open>msg.as_string()\<close> changes the message: it writes the boundary it has chosen into the
  \<open>Content-Type\<close> header, which until then has no parameter.
\<close>

definition set_boundary :: "mime_message \<Rightarrow> string \<Rightarrow> mime_message" where
  "set_boundary msg b =
     msg\<lparr>headers :=
       map (\<lambda>(k, v). if k = ''Content-Type''
                      then (k, v @ ''; boundary='' @ quotation_mark @ b @ quotation_mark)
                      else (k, v))
         (headers msg)\<rparr>"

definition serialised :: "environment \<Rightarrow> mime_message \<Rightarrow> mime_message" where
  "serialised env msg =
     (case as_string_boundary env msg of None \<Rightarrow> msg | Some b \<Rightarrow> set_boundary msg b)"

subsection \<open>EmailResult and its validator\<close>

text \<open>\<open>populate_output\<close>, lines 29 to 37.\<close>

definition populate_output :: "EmailResult \<Rightarrow> EmailResult" where
  "populate_output self =
     (if truthy (error self) then self
      else
        let status = (if message_sent self then ''successfully'' else ''failed to be'')
        in self\<lparr>output := Some (''Email to '' @ recipient self @ '' with subject ''
                    @ apostrophe @ subject self @ apostrophe
                    @ '' was '' @ status @ '' sent.'')\<rparr>)"

text \<open>
  The call \<open>EmailResult(recipient=r, subject=s, message_sent=b, error=e)\<close>: pydantic
  requires \<open>recipient\<close> and \<open>subject\<close> to be strings, and rejects \<open>None\<close> (a header that
  is absent) and a \<open>Header\<close> object; then it runs the validator on the object, whose
  \<open>output\<close> is unset.
\<close>

fun rejected_value :: "string \<Rightarrow> header_value option \<Rightarrow> string list" where
  "rejected_value name (Some (StrValue v)) = []"
| "rejected_value name x = [name]"

definition new_EmailResult ::
  "environment \<Rightarrow> header_value option \<Rightarrow> header_value option \<Rightarrow> bool \<Rightarrow> string option
     \<Rightarrow> py_exception + EmailResult" where
  "new_EmailResult env r s b e =
     (case (r, s) of
        (Some (StrValue r'), Some (StrValue s')) \<Rightarrow>
          Inr (populate_output
                 \<lparr>recipient = r', subject = s', message_sent = b, error = e, output = None\<rparr>)
      | _ \<Rightarrow>
          Inl (ValidationError
                 (validation_text env ''EmailResult''
                    (rejected_value ''recipient'' r @ rejected_value ''subject'' s))))"

subsection \<open>The configuration resolver\<close>

text \<open>
  \<open>_get_email_config\<close>, lines 147 to 163. The four required attributes are read in
  order, then \<open>use_tls\<close> with its default, then the constructor validates the five
  values. Only \<open>AttributeError\<close> is caught.
\<close>

definition read_attribute :: "string \<Rightarrow> 'a attribute \<Rightarrow> py_exception + 'a attribute" where
  "read_attribute name a =
     (case a of Missing \<Rightarrow> Inl (AttributeError name) | _ \<Rightarrow> Inr a)"

definition getattr_default :: "'a attribute \<Rightarrow> 'a \<Rightarrow> 'a attribute" where
  "getattr_default a d = (case a of Missing \<Rightarrow> Accepted d | _ \<Rightarrow> a)"

fun rejected_field :: "string \<Rightarrow> 'a attribute \<Rightarrow> string list" where
  "rejected_field name (Accepted v) = []"
| "rejected_field name a = [name]"

definition new_EmailConfig ::
  "environment \<Rightarrow> string attribute \<Rightarrow> int attribute \<Rightarrow> string attribute
     \<Rightarrow> string attribute \<Rightarrow> bool attribute \<Rightarrow> py_exception + EmailConfig" where
  "new_EmailConfig env s p u w t =
     (case (s, p, u, w, t) of
        (Accepted s', Accepted p', Accepted u', Accepted w', Accepted t') \<Rightarrow>
          Inr \<lparr>smtp_server = s', smtp_port = p', smtp_username = u',
               smtp_password = w', use_tls = t'\<rparr>
      | _ \<Rightarrow>
          Inl (ValidationError
                 (validation_text env ''EmailConfig''
                    (rejected_field ''smtp_server'' s @ rejected_field ''smtp_port'' p
                     @ rejected_field ''smtp_username'' u @ rejected_field ''smtp_password'' w
                     @ rejected_field ''use_tls'' t))))"

definition read_email_config :: "environment \<Rightarrow> email_section \<Rightarrow> py_exception + EmailConfig" where
  "read_email_config env sec =
     (case read_attribute ''smtp_server'' (cfg_smtp_server sec) of
        Inl e \<Rightarrow> Inl e
      | Inr s \<Rightarrow>
     (case read_attribute ''smtp_port'' (cfg_smtp_port sec) of
        Inl e \<Rightarrow> Inl e
      | Inr p \<Rightarrow>
     (case read_attribute ''smtp_username'' (cfg_smtp_username sec) of
        Inl e \<Rightarrow> Inl e
      | Inr u \<Rightarrow>
     (case read_attribute ''smtp_password'' (cfg_smtp_password sec) of
        Inl e \<Rightarrow> Inl e
      | Inr w \<Rightarrow>
          new_EmailConfig env s p u w (getattr_default (cfg_use_tls sec) True)))))"

definition get_email_config :: "environment \<Rightarrow> app_config \<Rightarrow> py_exception + EmailConfig option" where
  "get_email_config env config =
     (case config of
        None \<Rightarrow> Inr None
      | Some sec \<Rightarrow>
          (case read_email_config env sec of
             Inl (AttributeError t) \<Rightarrow> Inr None
           | Inl e \<Rightarrow> Inl e
           | Inr c \<Rightarrow> Inr (Some c)))"

subsection \<open>The transport\<close>

text \<open>
  The inner function \<open>_send\<close>, lines 172 to 177: the exception it raises, if any, the
  message as \<open>_send\<close> leaves it, and the operations performed on the connection. The
  argument \<open>msg.as_string()\<close> is evaluated before \<open>sendmail\<close> is called. Leaving the
  \<open>with\<close> block sends \<open>QUIT\<close> on every path once the connection exists; an
  exception of \<open>QUIT\<close> replaces the one of the block.
\<close>

definition send_body ::
  "environment \<Rightarrow> EmailConfig \<Rightarrow> mime_message \<Rightarrow> string list
     \<Rightarrow> (string option \<times> mime_message) \<times> smtp_event list" where
  "send_body env c msg recipients =
     (let tls = (if use_tls c then [StartTLS] else []) in
      if use_tls c \<and> starttls_raises env \<noteq> None then ((starttls_raises env, msg), tls)
      else
        let login = Login (smtp_username c) (smtp_password c) in
        case login_raises env (smtp_username c) (smtp_password c) of
          Some t \<Rightarrow> ((Some t, msg), tls @ [login])
        | None \<Rightarrow>
            (let msg' = serialised env msg in
             case as_string_raises env msg of
               Some t \<Rightarrow> ((Some t, msg'), tls @ [login])
             | None \<Rightarrow>
                 ((sendmail_raises env (smtp_username c) recipients msg', msg'),
                  tls @ [login, SendMail (smtp_username c) recipients msg'])))"

definition send ::
  "environment \<Rightarrow> EmailConfig \<Rightarrow> mime_message \<Rightarrow> string list
     \<Rightarrow> (string option \<times> mime_message) \<times> smtp_event list" where
  "send env c msg recipients =
     (let connect = Connect (smtp_server c) (smtp_port c) in
      case SMTP_raises env (smtp_server c) (smtp_port c) of
        Some t \<Rightarrow> ((Some t, msg), [connect])
      | None \<Rightarrow>
          (let ((raised, msg'), events) = send_body env c msg recipients in
           case quit_raises env of
             Some t \<Rightarrow> ((Some t, msg'), connect # events @ [Quit])
           | None \<Rightarrow> ((raised, msg'), connect # events @ [Quit])))"

text \<open>
  \<open>_send_email_async\<close>, lines 165 to 195. The result is built from \<open>msg['To']\<close> and
  \<open>msg['Subject']\<close>, read after \<open>_send\<close>. An exception of the constructor in the \<open>try\<close>
  block is caught like one of \<open>_send\<close>; an exception of the constructor in the handler
  leaves the function.
\<close>

definition send_email_async ::
  "environment \<Rightarrow> EmailConfig \<Rightarrow> mime_message \<Rightarrow> string list
     \<Rightarrow> (py_exception + EmailResult) \<times> smtp_event list" where
  "send_email_async env c msg recipients =
     (let ((raised, msg'), events) = send env c msg recipients;
          failed = (\<lambda>t. new_EmailResult env (get_header env msg' ''To'')
                          (get_header env msg' ''Subject'')
                          False (Some (''Error sending email: '' @ t)))
      in case raised of
           Some t \<Rightarrow> (failed t, events)
         | None \<Rightarrow>
             (case new_EmailResult env (get_header env msg' ''To'')
                     (get_header env msg' ''Subject'') True None of
                Inl e \<Rightarrow> (failed (str_exn e), events)
              | Inr r \<Rightarrow> (Inr r, events)))"

subsection \<open>execute\<close>

text \<open>The message of lines 114 to 126 and the recipient list of lines 128 to 133.\<close>

definition build_message ::
  "environment \<Rightarrow> EmailConfig \<Rightarrow> string \<Rightarrow> string \<Rightarrow> string \<Rightarrow> string list option \<Rightarrow> bool
     \<Rightarrow> py_exception + mime_message" where
  "build_message env c to_addr subj body cc is_html =
     (let msg = MIMEMultipart;
          msg = set_header msg ''From'' (smtp_username c);
          msg = set_header msg ''To'' to_addr;
          msg = set_header msg ''Subject'' subj;
          msg = (if truthy cc then set_header msg ''Cc'' (join '', '' (the cc)) else msg);
          content_type = (if is_html then ''html'' else ''plain'')
      in case MIMEText env body content_type of
           Inl e \<Rightarrow> Inl e
         | Inr part \<Rightarrow> Inr (attach msg part))"

definition recipient_list :: "string \<Rightarrow> string list option \<Rightarrow> string list option \<Rightarrow> string list" where
  "recipient_list to_addr cc bcc =
     (let recipients = [to_addr];
          recipients = (if truthy cc then recipients @ the cc else recipients);
          recipients = (if truthy bcc then recipients @ the bcc else recipients)
      in recipients)"

text \<open>
  \<open>execute\<close>, lines 81 to 145: the value returned or the exception that leaves the
  call, and the operations performed on the connection.
\<close>

definition execute ::
  "environment \<Rightarrow> app_config \<Rightarrow> string \<Rightarrow> string \<Rightarrow> string \<Rightarrow> string list option
     \<Rightarrow> string list option \<Rightarrow> bool \<Rightarrow> (py_exception + EmailResult) \<times> smtp_event list" where
  "execute env config to_addr subj body cc bcc is_html =
     (case get_email_config env config of
        Inl e \<Rightarrow> (Inl e, [])
      | Inr None \<Rightarrow>
          (new_EmailResult env (Some (StrValue to_addr)) (Some (StrValue subj)) False
             (Some ''Email configuration is missing or incomplete in app config.''), [])
      | Inr (Some c) \<Rightarrow>
          (case build_message env c to_addr subj body cc is_html of
             Inl e \<Rightarrow> (Inl e, [])
           | Inr msg \<Rightarrow>
               (case send_email_async env c msg (recipient_list to_addr cc bcc) of
                  (Inl e, events) \<Rightarrow>
                    (new_EmailResult env (Some (StrValue to_addr)) (Some (StrValue subj)) False
                       (Some (''Failed to send email: '' @ str_exn e)), events)
                | (Inr r, events) \<Rightarrow> (Inr r, events))))"

subsection \<open>What is observed of a run\<close>

text \<open>The calls of \<open>sendmail\<close> among the operations, and the messages they hand over.\<close>

fun sendmail_calls :: "smtp_event list \<Rightarrow> (string \<times> string list \<times> mime_message) list" where
  "sendmail_calls [] = []"
| "sendmail_calls (SendMail f r m # es) = (f, r, m) # sendmail_calls es"
| "sendmail_calls (e # es) = sendmail_calls es"




text \<open>The call returned a result whose error string contains the text.\<close>

fun error_contains :: "string \<Rightarrow> py_exception + EmailResult \<Rightarrow> bool" where
  "error_contains t (Inl e) = False"
| "error_contains t (Inr r) = (case error r of None \<Rightarrow> False | Some s \<Rightarrow> sublist t s)"

text \<open>Every step of \<open>_send\<close> before \<open>sendmail\<close> returns.\<close>

definition reaches_sendmail :: "environment \<Rightarrow> EmailConfig \<Rightarrow> mime_message \<Rightarrow> bool" where
  "reaches_sendmail env c msg \<longleftrightarrow>
     SMTP_raises env (smtp_server c) (smtp_port c) = None \<and>
     \<not> (use_tls c \<and> starttls_raises env \<noteq> None) \<and>
     login_raises env (smtp_username c) (smtp_password c) = None \<and>
     as_string_raises env msg = None"

text \<open>An optional list argument read as a list.\<close>

fun opt_list :: "'a list option \<Rightarrow> 'a list" where
  "opt_list None = []"
| "opt_list (Some xs) = xs"

text \<open>
  The elements of a list with a comma and a space between each two of them, written
  without \<open>join\<close>.
\<close>

fun comma_separated :: "string list \<Rightarrow> string" where
  "comma_separated [] = []"
| "comma_separated (x # xs) = x @ concat (map (\<lambda>y. '', '' @ y) xs)"

text \<open>The fields of \<open>EmailResult\<close> that receive a \<open>Header\<close> object for these arguments.\<close>

definition surrogate_fields :: "environment \<Rightarrow> string \<Rightarrow> string \<Rightarrow> string list" where
  "surrogate_fields env to_addr subj =
     (if has_surrogates env to_addr then [''recipient''] else [])
     @ (if has_surrogates env subj then [''subject''] else [])"

subsection \<open>Concrete configurations and environments\<close>

text \<open>
  A server that accepts everything, and a complete configuration. In the examples the
  texts \<open><U+D800>\<close> and \<open><U+DCE9>\<close> stand for the lone surrogates U+D800 and U+DCE9:
  a string that holds one of them cannot be encoded. \<open>MIMEText\<close> raises
  \<open>UnicodeEncodeError\<close> on a body that holds U+D800; a header that holds U+DCE9 is
  serialised without an exception.
\<close>

definition working_env :: environment where
  "working_env =
     \<lparr>validation_text = (\<lambda>m fields. ''validation error for '' @ m),
      has_surrogates = (\<lambda>s. sublist ''<U+D800>'' s \<or> sublist ''<U+DCE9>'' s),
      MIMEText_raises =
        (\<lambda>body subtype. if sublist ''<U+D800>'' body then Some ''surrogates not allowed''
                         else None),
      as_string_raises = (\<lambda>msg. None),
      as_string_boundary = (\<lambda>msg. Some ''===============0123=2=''),
      SMTP_raises = (\<lambda>host port. None),
      starttls_raises = None,
      login_raises = (\<lambda>user password. None),
      sendmail_raises = (\<lambda>sender recipients msg. None),
      quit_raises = None\<rparr>"

definition example_section :: email_section where
  "example_section =
     \<lparr>cfg_smtp_server = Accepted ''smtp.x.com'', cfg_smtp_port = Accepted 587,
      cfg_smtp_username = Accepted ''u@x.com'', cfg_smtp_password = Accepted ''s3cret'',
      cfg_use_tls = Missing\<rparr>"

definition example_config :: EmailConfig where
  "example_config =
     \<lparr>smtp_server = ''smtp.x.com'', smtp_port = 587, smtp_username = ''u@x.com'',
      smtp_password = ''s3cret'', use_tls = True\<rparr>"

text \<open>A server that cannot be reached.\<close>

definition refusing_env :: environment where
  "refusing_env = working_env\<lparr>SMTP_raises := (\<lambda>host port. Some ''Connection refused'')\<rparr>"

text \<open>A server whose rejection of the login repeats the credentials it was given.\<close>

definition echoing_env :: environment where
  "echoing_env =
     working_env\<lparr>login_raises :=
       (\<lambda>user password. Some (''535 authentication failed for '' @ user @ '' '' @ password))\<rparr>"

text \<open>A server that accepts the login with the password \<open>s3cret\<close> only.\<close>

definition checking_env :: environment where
  "checking_env =
     working_env\<lparr>login_raises :=
       (\<lambda>user password. if password = ''s3cret'' then None
                            else Some ''535 authentication failed'')\<rparr>"

text \<open>The messages of the examples below, as \<open>execute\<close> builds them and as they are sent.\<close>

definition example_part :: mime_text where
  "example_part =
     \<lparr>text_headers =
        [(''Content-Type'', ''text/plain; charset='' @ quotation_mark @ ''us-ascii''
                              @ quotation_mark),
         (''MIME-Version'', ''1.0''), (''Content-Transfer-Encoding'', ''7bit'')],
      text_subtype = ''plain'', text_payload = ''hello''\<rparr>"

definition example_boundary :: string where
  "example_boundary =
     ''multipart/mixed; boundary='' @ quotation_mark @ ''===============0123=2=''
       @ quotation_mark"

definition plain_built :: mime_message where
  "plain_built =
     \<lparr>headers =
        [(''Content-Type'', ''multipart/mixed''), (''MIME-Version'', ''1.0''),
         (''From'', ''u@x.com''), (''To'', ''a@x.com''), (''Subject'', ''Hi'')],
      payload = [example_part]\<rparr>"

definition plain_message :: mime_message where
  "plain_message =
     \<lparr>headers =
        [(''Content-Type'', example_boundary), (''MIME-Version'', ''1.0''),
         (''From'', ''u@x.com''), (''To'', ''a@x.com''), (''Subject'', ''Hi'')],
      payload = [example_part]\<rparr>"



text \<open>
  Two configurations that do not resolve: in the first \<open>smtp_port\<close> holds a value that
  pydantic rejects (\<open>None\<close>), in the second the attribute \<open>smtp_password\<close> does not
  exist.
\<close>

definition mistyped_section :: email_section where
  "mistyped_section = example_section\<lparr>cfg_smtp_port := Rejected\<rparr>"

definition incomplete_section :: email_section where
  "incomplete_section = example_section\<lparr>cfg_smtp_password := Missing\<rparr>"

section \<open>Properties\<close>

subsection \<open>The shape of a run\<close>

lemma build_message_eq:
  "build_message env c to_addr subj body cc is_html =
     (case MIMEText_raises env body (if is_html then ''html'' else ''plain'') of
        Some t \<Rightarrow> Inl (LibraryError t)
      | None \<Rightarrow>
          Inr \<lparr>headers =
                 [(''Content-Type'', ''multipart/mixed''), (''MIME-Version'', ''1.0''),
                  (''From'', smtp_username c), (''To'', to_addr), (''Subject'', subj)]
                 @ (if truthy cc then [(''Cc'', join '', '' (the cc))] else []),
               payload =
                 [\<lparr>text_headers =
                     [(''Content-Type'',
                       text_content_type (if is_html then ''html'' else ''plain'') body),
                      (''MIME-Version'', ''1.0''),
                      (''Content-Transfer-Encoding'', text_transfer_encoding body)],
                   text_subtype = (if is_html then ''html'' else ''plain''),
                   text_payload = body\<rparr>]\<rparr>)"
  by (simp add: build_message_def MIMEMultipart_def set_header_def attach_def MIMEText_def
        Let_def split: option.splits)

lemma stored_header_set_boundary:
  assumes "k \<noteq> ''Content-Type''"
  shows "stored_header (set_boundary msg b) k = stored_header msg k"
proof -
  have "map_of (map (\<lambda>(k', v). if k' = ''Content-Type''
                       then (k', v @ ''; boundary='' @ quotation_mark @ b @ quotation_mark)
                       else (k', v)) hs) k = map_of hs k" for hs
    using assms by (induction hs) auto
  then show ?thesis by (simp add: stored_header_def set_boundary_def)
qed

lemma stored_header_serialised:
  assumes "k \<noteq> ''Content-Type''"
  shows "stored_header (serialised env msg) k = stored_header msg k"
  using assms by (simp add: serialised_def stored_header_set_boundary split: option.splits)

lemma get_header_serialised:
  assumes "k \<noteq> ''Content-Type''"
  shows "get_header env (serialised env msg) k = get_header env msg k"
  using assms by (simp add: get_header_def stored_header_serialised)

lemma send_message:
  "snd (fst (send env c msg rs)) = msg \<or> snd (fst (send env c msg rs)) = serialised env msg"
  by (auto simp: send_def send_body_def Let_def split: option.splits prod.splits if_splits)

lemma get_header_after_send:
  assumes "k \<noteq> ''Content-Type''"
  shows "get_header env (snd (fst (send env c msg rs))) k = get_header env msg k"
  using send_message[of env c msg rs] assms by (auto simp: get_header_serialised)

lemma build_message_To:
  assumes "build_message env c to_addr subj body cc is_html = Inr msg"
  shows "stored_header msg ''To'' = Some to_addr" and "stored_header msg ''Subject'' = Some subj"
  using assms by (auto simp: build_message_eq stored_header_def split: option.splits)

lemma new_EmailResult_failed:
  "new_EmailResult env (Some (StrValue r)) (Some (StrValue s)) False (Some (x # xs)) =
     Inr \<lparr>recipient = r, subject = s, message_sent = False, error = Some (x # xs),
          output = None\<rparr>"
  by (simp add: new_EmailResult_def populate_output_def)

lemma new_EmailResult_sent:
  "new_EmailResult env (Some (StrValue r)) (Some (StrValue s)) True None =
     Inr \<lparr>recipient = r, subject = s, message_sent = True, error = None,
          output = Some (''Email to '' @ r @ '' with subject '' @ apostrophe @ s @ apostrophe
                         @ '' was successfully sent.'')\<rparr>"
  by (simp add: new_EmailResult_def populate_output_def)

lemma new_EmailResult_rejected:
  assumes "has_surrogates env r \<or> has_surrogates env s"
  shows "new_EmailResult env
           (Some (if has_surrogates env r then HeaderObject r else StrValue r))
           (Some (if has_surrogates env s then HeaderObject s else StrValue s)) b e =
         Inl (ValidationError (validation_text env ''EmailResult'' (surrogate_fields env r s)))"
  using assms by (auto simp: new_EmailResult_def surrogate_fields_def)

lemma send_email_async_eq:
  assumes "stored_header msg ''To'' = Some r" and "stored_header msg ''Subject'' = Some s"
  shows "send_email_async env c msg rs =
     (if has_surrogates env r \<or> has_surrogates env s
      then Inl (ValidationError (validation_text env ''EmailResult'' (surrogate_fields env r s)))
      else
        (case fst (fst (send env c msg rs)) of
           None \<Rightarrow>
             Inr \<lparr>recipient = r, subject = s, message_sent = True, error = None,
                  output = Some (''Email to '' @ r @ '' with subject '' @ apostrophe @ s
                                 @ apostrophe @ '' was successfully sent.'')\<rparr>
         | Some t \<Rightarrow>
             Inr \<lparr>recipient = r, subject = s, message_sent = False,
                  error = Some (''Error sending email: '' @ t), output = None\<rparr>),
      snd (send env c msg rs))"
proof -
  obtain raised msg' events where run: "send env c msg rs = ((raised, msg'), events)"
    by (metis prod.exhaust)
  have "msg' = snd (fst (send env c msg rs))" by (simp add: run)
  then have to: "get_header env msg' ''To'' = get_header env msg ''To''"
    and subj: "get_header env msg' ''Subject'' = get_header env msg ''Subject''"
    by (simp_all add: get_header_after_send)
  have to': "get_header env msg ''To'' =
               Some (if has_surrogates env r then HeaderObject r else StrValue r)"
    and subj': "get_header env msg ''Subject'' =
               Some (if has_surrogates env s then HeaderObject s else StrValue s)"
    using assms by (simp_all add: get_header_def)
  show ?thesis
  proof (cases "has_surrogates env r \<or> has_surrogates env s")
    case True
    from new_EmailResult_rejected[OF True] show ?thesis
      using True by (simp add: send_email_async_def run to subj to' subj' split: option.splits)
  next
    case False
    then show ?thesis
      by (simp add: send_email_async_def run to subj to' subj' new_EmailResult_failed
            new_EmailResult_sent split: option.splits)
  qed
qed

lemma execute_configured:
  assumes "get_email_config env config = Inr (Some c)"
      and "build_message env c to_addr subj body cc is_html = Inr msg"
  shows "execute env config to_addr subj body cc bcc is_html =
     (Inr (if has_surrogates env to_addr \<or> has_surrogates env subj
           then \<lparr>recipient = to_addr, subject = subj, message_sent = False,
                 error = Some (''Failed to send email: ''
                               @ validation_text env ''EmailResult''
                                   (surrogate_fields env to_addr subj)),
                 output = None\<rparr>
           else
             (case fst (fst (send env c msg (recipient_list to_addr cc bcc))) of
                None \<Rightarrow>
                  \<lparr>recipient = to_addr, subject = subj, message_sent = True, error = None,
                   output = Some (''Email to '' @ to_addr @ '' with subject '' @ apostrophe
                                  @ subj @ apostrophe @ '' was successfully sent.'')\<rparr>
              | Some t \<Rightarrow>
                  \<lparr>recipient = to_addr, subject = subj, message_sent = False,
                   error = Some (''Error sending email: '' @ t), output = None\<rparr>)),
      snd (send env c msg (recipient_list to_addr cc bcc)))"
  using assms
  by (simp add: execute_def send_email_async_eq[OF build_message_To[OF assms(2)]]
        new_EmailResult_failed split: option.splits)

lemma execute_unconfigured:
  assumes "get_email_config env config = Inr None"
  shows "execute env config to_addr subj body cc bcc is_html =
     (Inr \<lparr>recipient = to_addr, subject = subj, message_sent = False,
           error = Some ''Email configuration is missing or incomplete in app config.'',
           output = None\<rparr>, [])"
  using assms by (simp add: execute_def new_EmailResult_def populate_output_def)

lemma execute_config_raises:
  assumes "get_email_config env config = Inl e"
  shows "execute env config to_addr subj body cc bcc is_html = (Inl e, [])"
  using assms by (simp add: execute_def)

lemma execute_build_raises:
  assumes "get_email_config env config = Inr (Some c)"
      and "build_message env c to_addr subj body cc is_html = Inl e"
  shows "execute env config to_addr subj body cc bcc is_html = (Inl e, [])"
  using assms by (simp add: execute_def)

lemma example_section_resolves:
  "get_email_config env (Some example_section) = Inr (Some example_config)"
  by (simp add: get_email_config_def read_email_config_def read_attribute_def
        new_EmailConfig_def getattr_default_def example_section_def example_config_def)

lemma get_email_config_missing:
  assumes "cfg_smtp_server sec = Missing \<or> cfg_smtp_port sec = Missing \<or>
           cfg_smtp_username sec = Missing \<or> cfg_smtp_password sec = Missing"
  shows "get_email_config env (Some sec) = Inr None"
  using assms
  by (auto simp: get_email_config_def read_email_config_def read_attribute_def
        split: attribute.splits)

lemma join_Cons: "join sep (x # xs) = x @ concat (map (\<lambda>y. sep @ y) xs)"
  by (induction xs arbitrary: x) auto

lemma join_comma_separated: "join '', '' xs = comma_separated xs"
  by (cases xs) (simp_all only: join_Cons comma_separated.simps join.simps)

subsection \<open>The examples\<close>

lemma example_part_eq:
  "\<lparr>text_headers =
      [(''Content-Type'', text_content_type ''plain'' ''hello''), (''MIME-Version'', ''1.0''),
       (''Content-Transfer-Encoding'', text_transfer_encoding ''hello'')],
    text_subtype = ''plain'', text_payload = ''hello''\<rparr> = example_part"
  by (simp add: example_part_def text_content_type_def text_transfer_encoding_def is_ascii_def)

lemma working_env_accepts_hello:
  "MIMEText_raises working_env ''hello'' ''plain'' = None"
  "MIMEText_raises working_env ''hello'' ''html'' = None"
  "MIMEText_raises refusing_env ''hello'' ''plain'' = None"
  "MIMEText_raises echoing_env ''hello'' ''plain'' = None"
  "MIMEText_raises checking_env ''hello'' ''plain'' = None"
  by (simp_all add: working_env_def refusing_env_def echoing_env_def checking_env_def
        sublist_code(3))

lemma plain_built_working:
  "build_message working_env example_config ''a@x.com'' ''Hi'' ''hello'' None False
     = Inr plain_built"
  by (simp add: build_message_eq working_env_accepts_hello example_part_eq plain_built_def
        example_config_def)

lemma plain_built_refusing:
  "build_message refusing_env example_config ''a@x.com'' ''Hi'' ''hello'' None False
     = Inr plain_built"
  by (simp add: build_message_eq working_env_accepts_hello example_part_eq plain_built_def
        example_config_def)


lemma plain_message_serialised: "serialised working_env plain_built = plain_message"
  by (simp add: serialised_def set_boundary_def working_env_def plain_built_def
        plain_message_def example_boundary_def)


lemma working_env_reaches: "reaches_sendmail working_env c msg"
  by (simp add: reaches_sendmail_def working_env_def)

lemma working_env_no_surrogates:
  "\<not> has_surrogates working_env ''a@x.com''" "\<not> has_surrogates working_env ''Hi''"
  "\<not> has_surrogates refusing_env ''a@x.com''" "\<not> has_surrogates refusing_env ''Hi''"
  "\<not> has_surrogates echoing_env ''a@x.com''" "\<not> has_surrogates echoing_env ''Hi''"
  "\<not> has_surrogates checking_env ''a@x.com''" "\<not> has_surrogates checking_env ''Hi''"
  by (simp_all add: working_env_def refusing_env_def echoing_env_def checking_env_def
        sublist_code(3))

lemma working_env_surrogates:
  "has_surrogates working_env ''<U+DCE9>''" "has_surrogates refusing_env ''<U+DCE9>''"
  by (simp_all add: working_env_def refusing_env_def sublist_code(3))

lemma validation_text_examples:
  "validation_text working_env m fs = ''validation error for '' @ m"
  "validation_text refusing_env m fs = ''validation error for '' @ m"
  by (simp_all add: working_env_def refusing_env_def)

lemma send_refusing:
  "send refusing_env c msg rs =
     ((Some ''Connection refused'', msg), [Connect (smtp_server c) (smtp_port c)])"
  by (simp add: send_def refusing_env_def working_env_def)

lemma send_working:
  "send working_env c msg rs =
     ((None, serialised working_env msg),
      Connect (smtp_server c) (smtp_port c) # (if use_tls c then [StartTLS] else [])
        @ [Login (smtp_username c) (smtp_password c),
           SendMail (smtp_username c) rs (serialised working_env msg), Quit])"
  by (simp add: send_def send_body_def working_env_def Let_def)

subsection \<open>Configuration failure\<close>

text \<open>
  C2. When the resolver returns no \<open>EmailConfig\<close>, \<open>execute\<close> returns at once an
  \<open>EmailResult\<close> with \<open>message_sent\<close> false and the error string set, and no operation
  of the transport takes place: the list of operations of the call is empty. This is so
  in particular when the configuration section or one of \<open>smtp_server\<close>, \<open>smtp_port\<close>,
  \<open>smtp_username\<close>, \<open>smtp_password\<close> is absent.
\<close>

theorem execute_without_config:
  "(get_email_config env config = Inr None \<longrightarrow>
      execute env config to_addr subj body cc bcc is_html =
        (Inr \<lparr>recipient = to_addr, subject = subj, message_sent = False,
              error = Some ''Email configuration is missing or incomplete in app config.'',
              output = None\<rparr>, [])) \<and>
   (config = None \<or>
    (\<exists>sec. config = Some sec \<and>
       (cfg_smtp_server sec = Missing \<or> cfg_smtp_port sec = Missing \<or>
        cfg_smtp_username sec = Missing \<or> cfg_smtp_password sec = Missing)) \<longrightarrow>
      execute env config to_addr subj body cc bcc is_html =
        (Inr \<lparr>recipient = to_addr, subject = subj, message_sent = False,
              error = Some ''Email configuration is missing or incomplete in app config.'',
              output = None\<rparr>, []))"
proof (intro conjI impI)
  assume "get_email_config env config = Inr None"
  then show "execute env config to_addr subj body cc bcc is_html =
        (Inr \<lparr>recipient = to_addr, subject = subj, message_sent = False,
              error = Some ''Email configuration is missing or incomplete in app config.'',
              output = None\<rparr>, [])"
    by (simp add: execute_def new_EmailResult_def populate_output_def)
next
  assume "config = None \<or>
    (\<exists>sec. config = Some sec \<and>
       (cfg_smtp_server sec = Missing \<or> cfg_smtp_port sec = Missing \<or>
        cfg_smtp_username sec = Missing \<or> cfg_smtp_password sec = Missing))"
  then have "get_email_config env config = Inr None"
    using get_email_config_missing by (auto simp: get_email_config_def)
  then show "execute env config to_addr subj body cc bcc is_html =
        (Inr \<lparr>recipient = to_addr, subject = subj, message_sent = False,
              error = Some ''Email configuration is missing or incomplete in app config.'',
              output = None\<rparr>, [])"
    by (simp add: execute_def new_EmailResult_def populate_output_def)
qed

theorem execute_without_config_witness:
  "get_email_config working_env (Some incomplete_section) = Inr None \<and>
   cfg_smtp_password incomplete_section = Missing \<and>
   execute working_env (Some incomplete_section) ''a@x.com'' ''Hi'' ''hello'' None None False =
     (Inr \<lparr>recipient = ''a@x.com'', subject = ''Hi'', message_sent = False,
           error = Some ''Email configuration is missing or incomplete in app config.'',
           output = None\<rparr>, [])"
proof -
  have missing: "cfg_smtp_password incomplete_section = Missing"
    by (simp add: incomplete_section_def)
  then have none: "get_email_config working_env (Some incomplete_section) = Inr None"
    by (simp add: get_email_config_missing)
  from execute_without_config[where env = working_env and config = "Some incomplete_section"
         and to_addr = "''a@x.com''" and subj = "''Hi''" and body = "''hello''" and cc = None
         and bcc = None and is_html = False] missing none
  show ?thesis by simp
qed

subsection \<open>Recipient and subject of the result\<close>

text \<open>
  C9. Whatever branch \<open>execute\<close> returns on (configuration failure, transport success,
  transport failure), the \<open>recipient\<close> of the result is the \<open>to\<close> argument and its
  \<open>subject\<close> is the \<open>subject\<close> argument.
\<close>

theorem execute_keeps_recipient_and_subject:
  assumes "fst (execute env config to_addr subj body cc bcc is_html) = Inr r"
  shows "recipient r = to_addr \<and> subject r = subj"
proof (cases "get_email_config env config")
  case (Inl e)
  with assms show ?thesis by (simp add: execute_config_raises)
next
  case (Inr oc)
  show ?thesis
  proof (cases oc)
    case None
    with Inr assms show ?thesis by (auto simp: execute_unconfigured)
  next
    case (Some c)
    show ?thesis
    proof (cases "build_message env c to_addr subj body cc is_html")
      case (Inl e)
      with Inr Some assms show ?thesis by (simp add: execute_build_raises)
    next
      case built: (Inr msg)
      from Inr Some have "get_email_config env config = Inr (Some c)" by simp
      from execute_configured[OF this built, of bcc] assms show ?thesis
        by (auto split: option.splits if_splits)
    qed
  qed
qed

theorem execute_keeps_recipient_and_subject_witness:
  "fst (execute refusing_env (Some example_section) ''a@x.com'' ''Hi'' ''hello'' None None False)
     = Inr \<lparr>recipient = ''a@x.com'', subject = ''Hi'', message_sent = False,
            error = Some ''Error sending email: Connection refused'', output = None\<rparr>
   \<and> recipient \<lparr>recipient = ''a@x.com'', subject = ''Hi'', message_sent = False,
            error = Some ''Error sending email: Connection refused'', output = None\<rparr> = ''a@x.com''
   \<and> subject \<lparr>recipient = ''a@x.com'', subject = ''Hi'', message_sent = False,
            error = Some ''Error sending email: Connection refused'', output = None\<rparr> = ''Hi''"
proof -
  have run: "fst (execute refusing_env (Some example_section) ''a@x.com'' ''Hi'' ''hello''
               None None False)
     = Inr \<lparr>recipient = ''a@x.com'', subject = ''Hi'', message_sent = False,
            error = Some ''Error sending email: Connection refused'', output = None\<rparr>"
    by (simp add: execute_configured[OF example_section_resolves plain_built_refusing]
          working_env_no_surrogates send_refusing)
  from execute_keeps_recipient_and_subject[OF run] run show ?thesis by simp
qed

subsection \<open>Order of the transport steps\<close>

lemma send_events_tls:
  assumes "use_tls c"
  shows "snd (send env c msg rs) \<in>
     {[Connect (smtp_server c) (smtp_port c)],
      [Connect (smtp_server c) (smtp_port c), StartTLS, Quit],
      [Connect (smtp_server c) (smtp_port c), StartTLS,
       Login (smtp_username c) (smtp_password c), Quit],
      [Connect (smtp_server c) (smtp_port c), StartTLS,
       Login (smtp_username c) (smtp_password c),
       SendMail (smtp_username c) rs (serialised env msg), Quit]}"
  using assms
  by (auto simp: send_def send_body_def Let_def split: option.splits prod.splits if_splits)

text \<open>
  C8. In a run of \<open>_send\<close> with \<open>use_tls\<close> true, wherever a login occurs in the sequence
  of operations, STARTTLS occurs strictly before it, and wherever \<open>sendmail\<close> occurs,
  both STARTTLS and a login occur strictly before it: neither login nor \<open>sendmail\<close> is
  performed before the TLS upgrade has been attempted.
\<close>

theorem starttls_before_login_before_sendmail:
  assumes "use_tls c" and "snd (send env c msg rs) = before @ ev # after"
  shows "(\<forall>u p. ev = Login u p \<longrightarrow> StartTLS \<in> set before) \<and>
         (\<forall>f r m. ev = SendMail f r m \<longrightarrow>
            StartTLS \<in> set before \<and> (\<exists>u p. Login u p \<in> set before))"
  using send_events_tls[OF assms(1), of env msg rs] assms(2)
  by (auto simp: Cons_eq_append_conv append_eq_Cons_conv)

theorem starttls_before_login_before_sendmail_witness:
  "use_tls example_config \<and>
   snd (send working_env example_config plain_built [''a@x.com'']) =
     [Connect ''smtp.x.com'' 587, StartTLS, Login ''u@x.com'' ''s3cret'']
       @ SendMail ''u@x.com'' [''a@x.com''] plain_message # [Quit] \<and>
   StartTLS \<in> set [Connect ''smtp.x.com'' 587, StartTLS, Login ''u@x.com'' ''s3cret''] \<and>
   (\<exists>u p. Login u p \<in> set [Connect ''smtp.x.com'' 587, StartTLS, Login ''u@x.com'' ''s3cret''])"
proof -
  have tls: "use_tls example_config"
    by (simp add: example_config_def)
  have run: "snd (send working_env example_config plain_built [''a@x.com'']) =
     [Connect ''smtp.x.com'' 587, StartTLS, Login ''u@x.com'' ''s3cret'']
       @ SendMail ''u@x.com'' [''a@x.com''] plain_message # [Quit]"
    by (simp add: send_working plain_message_serialised example_config_def)
  from starttls_before_login_before_sendmail[OF tls run] tls run show ?thesis by blast
qed

subsection \<open>What is handed to sendmail\<close>

lemma sendmail_calls_send:
  "sendmail_calls (snd (send env c msg rs)) =
     (if reaches_sendmail env c msg then [(smtp_username c, rs, serialised env msg)] else [])"
  by (auto simp: send_def send_body_def reaches_sendmail_def Let_def
        split: option.splits prod.splits)

lemma recipient_list_eq: "recipient_list to_addr cc bcc = to_addr # opt_list cc @ opt_list bcc"
  by (cases cc; cases bcc) (auto simp: recipient_list_def Let_def)

lemma sendmail_calls_execute:
  "sendmail_calls (snd (execute env config to_addr subj body cc bcc is_html)) =
     (case get_email_config env config of
        Inr (Some c) \<Rightarrow>
          (case build_message env c to_addr subj body cc is_html of
             Inr msg \<Rightarrow>
               if reaches_sendmail env c msg
               then [(smtp_username c, to_addr # opt_list cc @ opt_list bcc,
                      serialised env msg)]
               else []
           | Inl e \<Rightarrow> [])
      | _ \<Rightarrow> [])"
  by (auto simp: execute_config_raises execute_unconfigured execute_build_raises
        execute_configured sendmail_calls_send recipient_list_eq
        split: sum.splits option.splits)

lemma Cc_header:
  assumes "build_message env c to_addr subj body cc is_html = Inr msg"
  shows "stored_header (serialised env msg) ''Cc'' =
           (if opt_list cc = [] then None else Some (comma_separated (opt_list cc)))"
proof -
  have "stored_header (serialised env msg) ''Cc'' = stored_header msg ''Cc''"
    by (simp add: stored_header_serialised)
  also have "\<dots> = (if opt_list cc = [] then None else Some (comma_separated (opt_list cc)))"
    using assms
    by (cases cc)
       (auto simp: build_message_eq stored_header_def join_comma_separated
          split: option.splits)
  finally show ?thesis .
qed

lemma payload_serialised: "payload (serialised env msg) = payload msg"
  by (simp add: serialised_def set_boundary_def split: option.splits)

lemma content_type:
  assumes "build_message env c to_addr subj body cc is_html = Inr msg"
  shows "map text_subtype (payload (serialised env msg)) =
           [if is_html then ''html'' else ''plain'']"
  using assms by (auto simp: payload_serialised build_message_eq split: option.splits)

lemma plain_message_sent:
  "sendmail_calls (snd (execute working_env (Some example_section) ''a@x.com'' ''Hi'' ''hello''
                          None bcc False)) =
     [(''u@x.com'', ''a@x.com'' # opt_list bcc, plain_message)]"
  by (simp add: sendmail_calls_execute example_section_resolves plain_built_working
        working_env_reaches plain_message_serialised)
     (simp add: example_config_def)

lemma build_message_empty_cc:
  "build_message env c to_addr subj body (Some []) is_html =
     build_message env c to_addr subj body None is_html"
  by (simp add: build_message_eq)

lemma recipient_list_empty_cc:
  "recipient_list to_addr (Some []) bcc = recipient_list to_addr None bcc"
  by (simp add: recipient_list_eq)

lemma recipient_list_empty_bcc:
  "recipient_list to_addr cc (Some []) = recipient_list to_addr cc None"
  by (simp add: recipient_list_eq)



subsection \<open>Empty and omitted lists\<close>

text \<open>
  C10. Calling \<open>execute\<close> with \<open>cc\<close> the empty list is the same as calling it with
  \<open>cc\<close> omitted: the result and the operations of the transport are equal, no \<open>Cc\<close>
  header is added, and the recipient list handed to \<open>sendmail\<close> is \<open>[to] + bcc\<close>.
  Likewise \<open>bcc\<close> the empty list is the same as \<open>bcc\<close> omitted.
\<close>

theorem empty_cc_bcc_as_omitted:
  "execute env config to_addr subj body (Some []) bcc is_html =
     execute env config to_addr subj body None bcc is_html \<and>
   execute env config to_addr subj body cc (Some []) is_html =
     execute env config to_addr subj body cc None is_html \<and>
   (\<forall>(f, r, m) \<in> set (sendmail_calls
        (snd (execute env config to_addr subj body None bcc is_html))).
      get_header env m ''Cc'' = None \<and> r = [to_addr] @ opt_list bcc)"
proof (intro conjI)
  show "execute env config to_addr subj body (Some []) bcc is_html =
     execute env config to_addr subj body None bcc is_html"
    unfolding execute_def build_message_empty_cc recipient_list_empty_cc ..
  show "execute env config to_addr subj body cc (Some []) is_html =
     execute env config to_addr subj body cc None is_html"
    unfolding execute_def recipient_list_empty_bcc ..
  show "\<forall>(f, r, m) \<in> set (sendmail_calls
        (snd (execute env config to_addr subj body None bcc is_html))).
      get_header env m ''Cc'' = None \<and> r = [to_addr] @ opt_list bcc"
    by (auto simp: sendmail_calls_execute get_header_def dest: Cc_header[OF sym]
          split: sum.splits option.splits if_splits)
qed

theorem empty_cc_bcc_as_omitted_witness:
  "execute working_env (Some example_section) ''a@x.com'' ''Hi'' ''hello'' (Some [])
       (Some [''c@x.com'']) False =
     execute working_env (Some example_section) ''a@x.com'' ''Hi'' ''hello'' None
       (Some [''c@x.com'']) False \<and>
   (''u@x.com'', [''a@x.com'', ''c@x.com''], plain_message) \<in> set (sendmail_calls
      (snd (execute working_env (Some example_section) ''a@x.com'' ''Hi'' ''hello'' None
              (Some [''c@x.com'']) False))) \<and>
   get_header working_env plain_message ''Cc'' = None"
proof -
  have mem: "(''u@x.com'', [''a@x.com'', ''c@x.com''], plain_message) \<in> set (sendmail_calls
      (snd (execute working_env (Some example_section) ''a@x.com'' ''Hi'' ''hello'' None
              (Some [''c@x.com'']) False)))"
    by (simp add: plain_message_sent)
  from empty_cc_bcc_as_omitted[of working_env "Some example_section" "''a@x.com''" "''Hi''"
         "''hello''" "Some [''c@x.com'']" False "Some [''c@x.com'']"] mem
  show ?thesis by fastforce
qed

subsection \<open>BCC addresses\<close>





subsection \<open>The configuration resolver\<close>

lemma get_email_config_rejected:
  assumes "cfg_smtp_server sec \<noteq> Missing" "cfg_smtp_port sec \<noteq> Missing"
          "cfg_smtp_username sec \<noteq> Missing" "cfg_smtp_password sec \<noteq> Missing"
      and "cfg_smtp_server sec = Rejected \<or> cfg_smtp_port sec = Rejected \<or>
           cfg_smtp_username sec = Rejected \<or> cfg_smtp_password sec = Rejected \<or>
           cfg_use_tls sec = Rejected"
  shows "get_email_config env (Some sec) =
           Inl (ValidationError
                  (validation_text env ''EmailConfig''
                     (rejected_field ''smtp_server'' (cfg_smtp_server sec)
                      @ rejected_field ''smtp_port'' (cfg_smtp_port sec)
                      @ rejected_field ''smtp_username'' (cfg_smtp_username sec)
                      @ rejected_field ''smtp_password'' (cfg_smtp_password sec)
                      @ rejected_field ''use_tls'' (getattr_default (cfg_use_tls sec) True))))"
  using assms
  by (auto simp: get_email_config_def read_email_config_def read_attribute_def
        new_EmailConfig_def getattr_default_def split: attribute.splits)

text \<open>
  C6, as stated: the resolver returns no \<open>EmailConfig\<close>, and raises nothing, also when a
  required field is of the wrong type. It fails for a configuration that has the four
  required fields, with a value for \<open>smtp_port\<close> that pydantic rejects (\<open>None\<close>): the
  constructor of \<open>EmailConfig\<close> raises pydantic's \<open>ValidationError\<close>, and the resolver
  catches \<open>AttributeError\<close> only.
\<close>

theorem resolver_wrong_type_raises:
  "get_email_config working_env (Some mistyped_section) =
     Inl (ValidationError ''validation error for EmailConfig'')"
  by (simp add: get_email_config_def read_email_config_def read_attribute_def
        new_EmailConfig_def getattr_default_def mistyped_section_def example_section_def
        working_env_def)

text \<open>
  C6, amended. The resolver returns no \<open>EmailConfig\<close>, and raises nothing, whenever the
  configuration section is absent or one of the four required fields (server, port,
  username, password) is absent. When the four required fields are present and pydantic
  rejects the value of one of the five fields, the \<open>ValidationError\<close> of the constructor,
  which names the rejected fields, leaves the resolver. When pydantic accepts the five
  values, a value of another type that it converts to the type of the field included
  (\<open>"587"\<close> for the port), the resolver returns the \<open>EmailConfig\<close> of the accepted
  values, with \<open>use_tls\<close> true when that attribute is absent.
\<close>

theorem resolver_absent_section_or_field:
  "(config = None \<or>
    (\<exists>sec. config = Some sec \<and>
       (cfg_smtp_server sec = Missing \<or> cfg_smtp_port sec = Missing \<or>
        cfg_smtp_username sec = Missing \<or> cfg_smtp_password sec = Missing))
    \<longrightarrow> get_email_config env config = Inr None) \<and>
   (cfg_smtp_server sec \<noteq> Missing \<and> cfg_smtp_port sec \<noteq> Missing \<and>
    cfg_smtp_username sec \<noteq> Missing \<and> cfg_smtp_password sec \<noteq> Missing \<and>
    (cfg_smtp_server sec = Rejected \<or> cfg_smtp_port sec = Rejected \<or>
     cfg_smtp_username sec = Rejected \<or> cfg_smtp_password sec = Rejected \<or>
     cfg_use_tls sec = Rejected)
    \<longrightarrow> get_email_config env (Some sec) =
          Inl (ValidationError
                 (validation_text env ''EmailConfig''
                    (rejected_field ''smtp_server'' (cfg_smtp_server sec)
                     @ rejected_field ''smtp_port'' (cfg_smtp_port sec)
                     @ rejected_field ''smtp_username'' (cfg_smtp_username sec)
                     @ rejected_field ''smtp_password'' (cfg_smtp_password sec)
                     @ rejected_field ''use_tls'' (getattr_default (cfg_use_tls sec) True))))) \<and>
   (cfg_smtp_server sec = Accepted s \<and> cfg_smtp_port sec = Accepted p \<and>
    cfg_smtp_username sec = Accepted u \<and> cfg_smtp_password sec = Accepted w \<and>
    getattr_default (cfg_use_tls sec) True = Accepted b
    \<longrightarrow> get_email_config env (Some sec) =
          Inr (Some \<lparr>smtp_server = s, smtp_port = p, smtp_username = u, smtp_password = w,
                     use_tls = b\<rparr>))"
proof (intro conjI impI)
  assume "config = None \<or>
    (\<exists>sec. config = Some sec \<and>
       (cfg_smtp_server sec = Missing \<or> cfg_smtp_port sec = Missing \<or>
        cfg_smtp_username sec = Missing \<or> cfg_smtp_password sec = Missing))"
  then show "get_email_config env config = Inr None"
  proof
    assume "config = None"
    then show ?thesis by (simp add: get_email_config_def)
  next
    assume "\<exists>sec. config = Some sec \<and>
       (cfg_smtp_server sec = Missing \<or> cfg_smtp_port sec = Missing \<or>
        cfg_smtp_username sec = Missing \<or> cfg_smtp_password sec = Missing)"
    then show ?thesis using get_email_config_missing by blast
  qed
next
  assume "cfg_smtp_server sec \<noteq> Missing \<and> cfg_smtp_port sec \<noteq> Missing \<and>
    cfg_smtp_username sec \<noteq> Missing \<and> cfg_smtp_password sec \<noteq> Missing \<and>
    (cfg_smtp_server sec = Rejected \<or> cfg_smtp_port sec = Rejected \<or>
     cfg_smtp_username sec = Rejected \<or> cfg_smtp_password sec = Rejected \<or>
     cfg_use_tls sec = Rejected)"
  then show "get_email_config env (Some sec) =
          Inl (ValidationError
                 (validation_text env ''EmailConfig''
                    (rejected_field ''smtp_server'' (cfg_smtp_server sec)
                     @ rejected_field ''smtp_port'' (cfg_smtp_port sec)
                     @ rejected_field ''smtp_username'' (cfg_smtp_username sec)
                     @ rejected_field ''smtp_password'' (cfg_smtp_password sec)
                     @ rejected_field ''use_tls'' (getattr_default (cfg_use_tls sec) True))))"
    using get_email_config_rejected by blast
next
  assume "cfg_smtp_server sec = Accepted s \<and> cfg_smtp_port sec = Accepted p \<and>
    cfg_smtp_username sec = Accepted u \<and> cfg_smtp_password sec = Accepted w \<and>
    getattr_default (cfg_use_tls sec) True = Accepted b"
  then show "get_email_config env (Some sec) =
          Inr (Some \<lparr>smtp_server = s, smtp_port = p, smtp_username = u, smtp_password = w,
                     use_tls = b\<rparr>)"
    by (simp add: get_email_config_def read_email_config_def read_attribute_def
          new_EmailConfig_def)
qed

theorem resolver_absent_section_or_field_witness:
  "get_email_config working_env (Some incomplete_section) = Inr None \<and>
   get_email_config working_env (Some mistyped_section) =
     Inl (ValidationError (validation_text working_env ''EmailConfig'' [''smtp_port''])) \<and>
   get_email_config working_env (Some example_section) = Inr (Some example_config)"
proof -
  have missing: "cfg_smtp_password incomplete_section = Missing"
    by (simp add: incomplete_section_def)
  have present: "cfg_smtp_server mistyped_section \<noteq> Missing \<and>
      cfg_smtp_port mistyped_section \<noteq> Missing \<and>
      cfg_smtp_username mistyped_section \<noteq> Missing \<and>
      cfg_smtp_password mistyped_section \<noteq> Missing \<and>
      cfg_smtp_port mistyped_section = Rejected"
    by (simp add: mistyped_section_def example_section_def)
  from resolver_absent_section_or_field[where config = "Some incomplete_section"
         and sec = mistyped_section and env = working_env] missing present
  have failures: "get_email_config working_env (Some incomplete_section) = Inr None \<and>
      get_email_config working_env (Some mistyped_section) =
        Inl (ValidationError (validation_text working_env ''EmailConfig'' [''smtp_port'']))"
    by (simp add: mistyped_section_def example_section_def getattr_default_def)
  have accepted: "cfg_smtp_server example_section = Accepted ''smtp.x.com'' \<and>
      cfg_smtp_port example_section = Accepted 587 \<and>
      cfg_smtp_username example_section = Accepted ''u@x.com'' \<and>
      cfg_smtp_password example_section = Accepted ''s3cret'' \<and>
      getattr_default (cfg_use_tls example_section) True = Accepted True"
    by (simp add: example_section_def getattr_default_def)
  from resolver_absent_section_or_field[where sec = example_section and env = working_env
         and s = "''smtp.x.com''" and p = 587 and u = "''u@x.com''" and w = "''s3cret''"
         and b = True, THEN conjunct2, THEN conjunct2] accepted
  have "get_email_config working_env (Some example_section) = Inr (Some example_config)"
    by (simp add: example_config_def)
  with failures show ?thesis by simp
qed

subsection \<open>What execute returns and what it raises\<close>

text \<open>
  C1, as stated: \<open>execute\<close> never raises, and a failure of the message construction is
  converted into an \<open>EmailResult\<close>. It fails for a body that \<open>MIMEText\<close> rejects (a string
  with the lone surrogate U+D800): line 126 is outside the \<open>try\<close> of line 135, and the
  exception leaves \<open>execute\<close>.
\<close>

theorem execute_raises_from_MIMEText:
  "fst (execute working_env (Some example_section) ''a@x.com'' ''Hi'' ''<U+D800>''
          None None False) = Inl (LibraryError ''surrogates not allowed'')"
  by (simp add: execute_def example_section_resolves build_message_eq)
     (simp add: working_env_def sublist_code(3))

text \<open>
  C1, amended. Whenever the resolver raises nothing and \<open>MIMEText\<close> accepts the body,
  \<open>execute\<close> returns an \<open>EmailResult\<close>, and a result with \<open>message_sent\<close> false has a
  non-empty error string. Every exception of the dispatch (connecting, STARTTLS, login,
  serialising the message, \<open>sendmail\<close>, QUIT) is converted into an \<open>EmailResult\<close> with
  \<open>message_sent\<close> false. Its error is \<open>Error sending email: \<close> followed by the text of
  the exception when neither \<open>to\<close> nor \<open>subject\<close> holds a lone surrogate; when one of
  them does, \<open>_send_email_async\<close> cannot build its result, and the error is
  \<open>Failed to send email: \<close> followed by the text of pydantic's validation error.
\<close>

theorem execute_returns_result:
  "(get_email_config env config = Inr oc \<longrightarrow>
    MIMEText_raises env body (if is_html then ''html'' else ''plain'') = None \<longrightarrow>
      (\<exists>r. fst (execute env config to_addr subj body cc bcc is_html) = Inr r \<and>
           (message_sent r \<or> (\<exists>t. error r = Some t \<and> t \<noteq> [])))) \<and>
   (get_email_config env config = Inr (Some c) \<longrightarrow>
    build_message env c to_addr subj body cc is_html = Inr msg \<longrightarrow>
    fst (fst (send env c msg (recipient_list to_addr cc bcc))) = Some t \<longrightarrow>
      fst (execute env config to_addr subj body cc bcc is_html) =
        Inr \<lparr>recipient = to_addr, subject = subj, message_sent = False,
             error = Some (if has_surrogates env to_addr \<or> has_surrogates env subj
                           then ''Failed to send email: ''
                                @ validation_text env ''EmailResult''
                                    (surrogate_fields env to_addr subj)
                           else ''Error sending email: '' @ t),
             output = None\<rparr>)"
proof (intro conjI impI)
  assume cfg: "get_email_config env config = Inr oc"
    and accepted: "MIMEText_raises env body (if is_html then ''html'' else ''plain'') = None"
  show "\<exists>r. fst (execute env config to_addr subj body cc bcc is_html) = Inr r \<and>
           (message_sent r \<or> (\<exists>t. error r = Some t \<and> t \<noteq> []))"
  proof (cases oc)
    case None
    with cfg show ?thesis by (simp add: execute_unconfigured)
  next
    case (Some c')
    from accepted obtain msg' where
      built: "build_message env c' to_addr subj body cc is_html = Inr msg'"
      by (simp add: build_message_eq)
    from cfg Some have "get_email_config env config = Inr (Some c')" by simp
    from execute_configured[OF this built, of bcc] show ?thesis
      by (auto split: option.splits)
  qed
next
  assume "get_email_config env config = Inr (Some c)"
    and "build_message env c to_addr subj body cc is_html = Inr msg"
    and "fst (fst (send env c msg (recipient_list to_addr cc bcc))) = Some t"
  then show "fst (execute env config to_addr subj body cc bcc is_html) =
        Inr \<lparr>recipient = to_addr, subject = subj, message_sent = False,
             error = Some (if has_surrogates env to_addr \<or> has_surrogates env subj
                           then ''Failed to send email: ''
                                @ validation_text env ''EmailResult''
                                    (surrogate_fields env to_addr subj)
                           else ''Error sending email: '' @ t),
             output = None\<rparr>"
    by (simp add: execute_configured)
qed

theorem execute_returns_result_witness:
  "fst (execute refusing_env (Some example_section) ''a@x.com'' ''Hi'' ''hello'' None None False)
     = Inr \<lparr>recipient = ''a@x.com'', subject = ''Hi'', message_sent = False,
            error = Some ''Error sending email: Connection refused'', output = None\<rparr> \<and>
   fst (execute refusing_env (Some example_section) ''a@x.com'' ''<U+DCE9>'' ''hello''
          None None False)
     = Inr \<lparr>recipient = ''a@x.com'', subject = ''<U+DCE9>'', message_sent = False,
            error = Some ''Failed to send email: validation error for EmailResult'',
            output = None\<rparr>"
proof -
  have accepted:
    "MIMEText_raises refusing_env ''hello'' (if False then ''html'' else ''plain'') = None"
    by (simp add: working_env_accepts_hello)
  have refused: "fst (fst (send refusing_env example_config msg rs)) = Some ''Connection refused''"
    for msg rs
    by (simp add: send_refusing)
  from execute_returns_result[where env = refusing_env and config = "Some example_section"
         and oc = "Some example_config" and c = example_config and msg = plain_built
         and body = "''hello''" and is_html = False and to_addr = "''a@x.com''"
         and subj = "''Hi''" and cc = None and bcc = None and t = "''Connection refused''"]
       example_section_resolves[of refusing_env] accepted plain_built_refusing refused
  have plain: "fst (execute refusing_env (Some example_section) ''a@x.com'' ''Hi'' ''hello''
                      None None False)
     = Inr \<lparr>recipient = ''a@x.com'', subject = ''Hi'', message_sent = False,
            error = Some ''Error sending email: Connection refused'', output = None\<rparr>"
    by (simp add: working_env_no_surrogates)
  obtain msg where built: "build_message refusing_env example_config ''a@x.com'' ''<U+DCE9>''
                             ''hello'' None False = Inr msg"
    by (simp add: build_message_eq working_env_accepts_hello)
  from execute_returns_result[where env = refusing_env and config = "Some example_section"
         and oc = "Some example_config" and c = example_config and msg = msg
         and body = "''hello''" and is_html = False and to_addr = "''a@x.com''"
         and subj = "''<U+DCE9>''" and cc = None and bcc = None and t = "''Connection refused''"]
       example_section_resolves[of refusing_env] accepted built refused
  have "fst (execute refusing_env (Some example_section) ''a@x.com'' ''<U+DCE9>'' ''hello''
          None None False)
     = Inr \<lparr>recipient = ''a@x.com'', subject = ''<U+DCE9>'', message_sent = False,
            error = Some ''Failed to send email: validation error for EmailResult'',
            output = None\<rparr>"
    by (simp add: working_env_surrogates validation_text_examples)
  with plain show ?thesis by simp
qed

subsection \<open>The result of a successful send\<close>

text \<open>
  C3, as stated: whenever \<open>error\<close> is set on an \<open>EmailResult\<close>, the \<open>output\<close> is left
  unset. It fails when \<open>error\<close> is set to the empty string: the validator tests the truth
  value of \<open>error\<close>, and computes the output from the template.
\<close>

theorem empty_error_has_output:
  "new_EmailResult working_env (Some (StrValue ''a@x.com'')) (Some (StrValue ''Hi'')) False
     (Some []) =
     Inr \<lparr>recipient = ''a@x.com'', subject = ''Hi'', message_sent = False, error = Some [],
          output = Some (''Email to a@x.com with subject '' @ apostrophe @ ''Hi'' @ apostrophe
                         @ '' was failed to be sent.'')\<rparr>"
  by (simp add: new_EmailResult_def populate_output_def)

text \<open>
  The first half of C3 fails as well where the subject holds a lone surrogate: the
  server accepts the message, \<open>msg['Subject']\<close> is a \<open>Header\<close> object, no result can be
  built from it, and \<open>execute\<close> reports a failure.
\<close>

lemma surrogate_subject_reported_as_failure:
  "fst (execute working_env (Some example_section) ''a@x.com'' ''<U+DCE9>'' ''hello''
          None None False)
     = Inr \<lparr>recipient = ''a@x.com'', subject = ''<U+DCE9>'', message_sent = False,
            error = Some ''Failed to send email: validation error for EmailResult'',
            output = None\<rparr> \<and>
   map (\<lambda>(f, r, m). (f, r))
     (sendmail_calls (snd (execute working_env (Some example_section) ''a@x.com'' ''<U+DCE9>''
                             ''hello'' None None False))) = [(''u@x.com'', [''a@x.com''])]"
proof -
  obtain msg where built: "build_message working_env example_config ''a@x.com'' ''<U+DCE9>''
                             ''hello'' None False = Inr msg"
    by (simp add: build_message_eq working_env_accepts_hello)
  show ?thesis
    by (simp add: execute_configured[OF example_section_resolves built] working_env_surrogates
          validation_text_examples sendmail_calls_send working_env_reaches)
       (simp add: example_config_def recipient_list_eq)
qed

text \<open>
  C3, amended. For every configuration that resolves and every input on which the
  transport succeeds and in which neither \<open>to\<close> nor \<open>subject\<close> holds a lone surrogate,
  \<open>execute\<close> returns an \<open>EmailResult\<close> with \<open>message_sent\<close> true, \<open>error\<close> unset and
  \<open>output\<close> equal to \<open>Email to {to} with subject '{subject}' was successfully sent.\<close>;
  and whenever \<open>error\<close> is set to a non-empty string on an \<open>EmailResult\<close>, its \<open>output\<close>
  is left unset.
\<close>

theorem success_result_and_output:
  "(get_email_config env config = Inr (Some c) \<longrightarrow>
    build_message env c to_addr subj body cc is_html = Inr msg \<longrightarrow>
    fst (fst (send env c msg (recipient_list to_addr cc bcc))) = None \<longrightarrow>
    \<not> has_surrogates env to_addr \<longrightarrow> \<not> has_surrogates env subj \<longrightarrow>
      fst (execute env config to_addr subj body cc bcc is_html) =
        Inr \<lparr>recipient = to_addr, subject = subj, message_sent = True, error = None,
             output = Some (''Email to '' @ to_addr @ '' with subject '' @ apostrophe @ subj
                            @ apostrophe @ '' was successfully sent.'')\<rparr>) \<and>
   (t \<noteq> [] \<longrightarrow>
      new_EmailResult env (Some (StrValue r)) (Some (StrValue s)) b (Some t) =
        Inr \<lparr>recipient = r, subject = s, message_sent = b, error = Some t, output = None\<rparr>)"
  by (simp add: execute_configured new_EmailResult_def populate_output_def)

theorem success_result_and_output_witness:
  "fst (execute working_env (Some example_section) ''a@x.com'' ''Hi'' ''hello'' None None False)
     = Inr \<lparr>recipient = ''a@x.com'', subject = ''Hi'', message_sent = True, error = None,
            output = Some (''Email to a@x.com with subject '' @ apostrophe @ ''Hi''
                           @ apostrophe @ '' was successfully sent.'')\<rparr> \<and>
   new_EmailResult working_env (Some (StrValue ''a@x.com'')) (Some (StrValue ''Hi'')) False
       (Some ''refused'') =
     Inr \<lparr>recipient = ''a@x.com'', subject = ''Hi'', message_sent = False,
          error = Some ''refused'', output = None\<rparr>"
proof -
  have sent: "fst (fst (send working_env example_config plain_built
                     (recipient_list ''a@x.com'' None None))) = None"
    by (simp add: send_working)
  have nonempty: "''refused'' \<noteq> []"
    by simp
  from success_result_and_output[where env = working_env and config = "Some example_section"
         and c = example_config and msg = plain_built and body = "''hello''"
         and is_html = False and to_addr = "''a@x.com''" and subj = "''Hi''" and cc = None
         and bcc = None and t = "''refused''" and r = "''a@x.com''" and s = "''Hi''"
         and b = False]
       example_section_resolves[of working_env] plain_built_working sent nonempty
       working_env_no_surrogates
  show ?thesis by simp
qed

subsection \<open>The password and the result\<close>

lemma get_email_config_password:
  assumes "cfg_smtp_password sec = Accepted old_pw"
  shows "get_email_config env (Some (sec\<lparr>cfg_smtp_password := Accepted new_pw\<rparr>)) =
           map_sum id (map_option (\<lambda>c. c\<lparr>smtp_password := new_pw\<rparr>))
             (get_email_config env (Some sec))"
  using assms
  by (auto simp: get_email_config_def read_email_config_def read_attribute_def
        new_EmailConfig_def getattr_default_def split: attribute.splits)

lemma build_message_password:
  "build_message env (c\<lparr>smtp_password := new_pw\<rparr>) to_addr subj body cc is_html =
     build_message env c to_addr subj body cc is_html"
  by (simp add: build_message_eq split: option.splits)

lemma execute_error_shape:
  assumes "fst (execute env config to_addr subj body cc bcc is_html) = Inr r"
  shows "error r = None \<or>
         error r = Some ''Email configuration is missing or incomplete in app config.'' \<or>
         (\<exists>c msg t. get_email_config env config = Inr (Some c) \<and>
            build_message env c to_addr subj body cc is_html = Inr msg \<and>
            fst (fst (send env c msg (recipient_list to_addr cc bcc))) = Some t \<and>
            error r = Some (''Error sending email: '' @ t)) \<or>
         ((has_surrogates env to_addr \<or> has_surrogates env subj) \<and>
          error r = Some (''Failed to send email: ''
                          @ validation_text env ''EmailResult''
                              (surrogate_fields env to_addr subj)))"
proof (cases "get_email_config env config")
  case (Inl e)
  with assms show ?thesis by (simp add: execute_config_raises)
next
  case (Inr oc)
  show ?thesis
  proof (cases oc)
    case None
    with Inr assms show ?thesis by (auto simp: execute_unconfigured)
  next
    case (Some c)
    with Inr have cfg: "get_email_config env config = Inr (Some c)" by simp
    show ?thesis
    proof (cases "build_message env c to_addr subj body cc is_html")
      case (Inl e)
      with cfg assms show ?thesis by (simp add: execute_build_raises)
    next
      case built: (Inr msg)
      from execute_configured[OF cfg built, of bcc] assms cfg built show ?thesis
        by (auto split: option.splits if_splits)
    qed
  qed
qed

lemma execute_password:
  assumes present: "cfg_smtp_password sec = Accepted old_pw"
      and same: "\<And>c msg. get_email_config env (Some sec) = Inr (Some c) \<Longrightarrow>
                  build_message env c to_addr subj body cc is_html = Inr msg \<Longrightarrow>
                  fst (fst (send env (c\<lparr>smtp_password := new_pw\<rparr>) msg
                              (recipient_list to_addr cc bcc))) =
                  fst (fst (send env c msg (recipient_list to_addr cc bcc)))"
  shows "fst (execute env (Some (sec\<lparr>cfg_smtp_password := Accepted new_pw\<rparr>)) to_addr subj body
                cc bcc is_html) =
         fst (execute env (Some sec) to_addr subj body cc bcc is_html)"
proof (cases "get_email_config env (Some sec)")
  case (Inl e)
  then show ?thesis
    by (simp add: execute_config_raises get_email_config_password[OF present])
next
  case (Inr oc)
  show ?thesis
  proof (cases oc)
    case None
    with Inr show ?thesis
      by (simp add: execute_unconfigured get_email_config_password[OF present])
  next
    case (Some c)
    with Inr have cfg: "get_email_config env (Some sec) = Inr (Some c)" by simp
    then have cfg': "get_email_config env (Some (sec\<lparr>cfg_smtp_password := Accepted new_pw\<rparr>)) =
        Inr (Some (c\<lparr>smtp_password := new_pw\<rparr>))"
      by (simp add: get_email_config_password[OF present])
    show ?thesis
    proof (cases "build_message env c to_addr subj body cc is_html")
      case (Inl e)
      then have "build_message env (c\<lparr>smtp_password := new_pw\<rparr>) to_addr subj body cc is_html
                   = Inl e"
        by (simp add: build_message_password)
      with Inl cfg cfg' show ?thesis by (simp add: execute_build_raises)
    next
      case built: (Inr msg)
      then have built': "build_message env (c\<lparr>smtp_password := new_pw\<rparr>) to_addr subj body cc
                           is_html = Inr msg"
        by (simp add: build_message_password)
      show ?thesis
        by (simp add: execute_configured[OF cfg built] execute_configured[OF cfg' built']
              same[OF cfg built])
    qed
  qed
qed

lemma send_echoing:
  "fst (fst (send echoing_env c msg rs)) =
     Some (''535 authentication failed for '' @ smtp_username c @ '' '' @ smtp_password c)"
  by (simp add: send_def send_body_def echoing_env_def working_env_def Let_def)

lemma send_checking:
  assumes "smtp_password c \<noteq> ''s3cret''"
  shows "fst (fst (send checking_env c msg rs)) = Some ''535 authentication failed''"
  using assms by (simp add: send_def send_body_def checking_env_def working_env_def Let_def)

lemma changed_password_resolves:
  "get_email_config env (Some (example_section\<lparr>cfg_smtp_password := Accepted pw\<rparr>)) =
     Inr (Some (example_config\<lparr>smtp_password := pw\<rparr>))"
  by (simp add: get_email_config_def read_email_config_def read_attribute_def
        new_EmailConfig_def getattr_default_def example_section_def example_config_def)

text \<open>
  Where the transport tells a right password from a wrong one, the result depends on the
  password: the server below accepts \<open>s3cret\<close> and rejects \<open>hunter2\<close>.
\<close>

lemma accepted_password_changes_result:
  "fst (execute checking_env (Some example_section) ''a@x.com'' ''Hi'' ''hello''
          None None False) \<noteq>
   fst (execute checking_env (Some (example_section\<lparr>cfg_smtp_password := Accepted ''hunter2''\<rparr>))
          ''a@x.com'' ''Hi'' ''hello'' None None False)"
proof -
  let ?c = "example_config\<lparr>smtp_password := ''hunter2''\<rparr>"
  obtain msg where built: "build_message checking_env example_config ''a@x.com'' ''Hi''
                             ''hello'' None False = Inr msg"
    by (simp add: build_message_eq working_env_accepts_hello)
  then have built': "build_message checking_env ?c ''a@x.com'' ''Hi'' ''hello'' None False
                       = Inr msg"
    by (simp add: build_message_password)
  have accepted: "fst (fst (send checking_env example_config msg rs)) = None" for rs
    by (simp add: send_def send_body_def checking_env_def working_env_def example_config_def
          Let_def)
  show ?thesis
    by (simp add: execute_configured[OF example_section_resolves built]
          execute_configured[OF changed_password_resolves built']
          working_env_no_surrogates accepted send_checking)
qed

text \<open>
  C7, as stated: the error string of a result never contains the password, and the result
  depends on the password only through whether the transport accepts or rejects. It fails
  for a server whose rejection of the login repeats the credentials: \<open>execute\<close> copies the
  text of the exception into the error string as it is.
\<close>

theorem error_repeats_password:
  "error_contains ''s3cret''
     (fst (execute echoing_env (Some example_section) ''a@x.com'' ''Hi'' ''hello''
             None None False))"
proof -
  obtain msg where built: "build_message echoing_env example_config ''a@x.com'' ''Hi'' ''hello''
                             None False = Inr msg"
    by (simp add: build_message_eq working_env_accepts_hello)
  show ?thesis
    by (simp add: execute_configured[OF example_section_resolves built]
          working_env_no_surrogates send_echoing)
       (simp add: example_config_def sublist_code(3))
qed

text \<open>
  C7, amended. The error string of a result of \<open>execute\<close> is the fixed message of the
  configuration failure, or \<open>Error sending email: \<close> followed by the text of the
  exception that the transport raised, or, when \<open>to\<close> or \<open>subject\<close> holds a lone
  surrogate, \<open>Failed to send email: \<close> followed by the text of pydantic's validation
  error for the result: \<open>execute\<close> itself writes nothing of the configuration into it.
  Two runs that differ only in the value of the password return the same result whenever
  the outcome of the transport (that it returns, or the text of the exception it raises)
  is the same in both.
\<close>

theorem password_only_through_transport:
  "(fst (execute env config to_addr subj body cc bcc is_html) = Inr r \<longrightarrow>
      error r = None \<or>
      error r = Some ''Email configuration is missing or incomplete in app config.'' \<or>
      (\<exists>c msg t. get_email_config env config = Inr (Some c) \<and>
         build_message env c to_addr subj body cc is_html = Inr msg \<and>
         fst (fst (send env c msg (recipient_list to_addr cc bcc))) = Some t \<and>
         error r = Some (''Error sending email: '' @ t)) \<or>
      ((has_surrogates env to_addr \<or> has_surrogates env subj) \<and>
       error r = Some (''Failed to send email: ''
                       @ validation_text env ''EmailResult''
                           (surrogate_fields env to_addr subj)))) \<and>
   (cfg_smtp_password sec = Accepted old_pw \<longrightarrow>
    (\<forall>c msg. get_email_config env (Some sec) = Inr (Some c) \<longrightarrow>
       build_message env c to_addr subj body cc is_html = Inr msg \<longrightarrow>
       fst (fst (send env (c\<lparr>smtp_password := new_pw\<rparr>) msg (recipient_list to_addr cc bcc))) =
       fst (fst (send env c msg (recipient_list to_addr cc bcc)))) \<longrightarrow>
      fst (execute env (Some (sec\<lparr>cfg_smtp_password := Accepted new_pw\<rparr>)) to_addr subj body
             cc bcc is_html) =
      fst (execute env (Some sec) to_addr subj body cc bcc is_html))"
  using execute_error_shape[of env config to_addr subj body cc bcc is_html r]
        execute_password[of sec old_pw env to_addr subj body cc is_html new_pw bcc]
  by blast

theorem password_only_through_transport_witness:
  "fst (execute checking_env (Some (example_section\<lparr>cfg_smtp_password := Accepted ''hunter2''\<rparr>))
          ''a@x.com'' ''Hi'' ''hello'' None None False)
     = Inr \<lparr>recipient = ''a@x.com'', subject = ''Hi'', message_sent = False,
            error = Some ''Error sending email: 535 authentication failed'',
            output = None\<rparr> \<and>
   fst (fst (send checking_env (example_config\<lparr>smtp_password := ''hunter2''\<rparr>) plain_built
               (recipient_list ''a@x.com'' None None))) = Some ''535 authentication failed'' \<and>
   fst (execute checking_env
          (Some (example_section\<lparr>cfg_smtp_password := Accepted ''hunter2'',
                                  cfg_smtp_password := Accepted ''letmein''\<rparr>))
          ''a@x.com'' ''Hi'' ''hello'' None None False) =
   fst (execute checking_env (Some (example_section\<lparr>cfg_smtp_password := Accepted ''hunter2''\<rparr>))
          ''a@x.com'' ''Hi'' ''hello'' None None False)"
proof -
  let ?sec = "example_section\<lparr>cfg_smtp_password := Accepted ''hunter2''\<rparr>"
  let ?c = "example_config\<lparr>smtp_password := ''hunter2''\<rparr>"
  have built: "build_message checking_env ?c ''a@x.com'' ''Hi'' ''hello'' None False
                 = Inr plain_built"
    by (simp add: build_message_eq working_env_accepts_hello example_part_eq plain_built_def
          example_config_def)
  have rejected: "fst (fst (send checking_env ?c plain_built
                              (recipient_list ''a@x.com'' None None)))
                    = Some ''535 authentication failed''"
    by (simp add: send_checking)
  have run: "fst (execute checking_env (Some ?sec) ''a@x.com'' ''Hi'' ''hello'' None None False)
     = Inr \<lparr>recipient = ''a@x.com'', subject = ''Hi'', message_sent = False,
            error = Some ''Error sending email: 535 authentication failed'',
            output = None\<rparr>"
    by (simp add: execute_configured[OF changed_password_resolves built]
          working_env_no_surrogates rejected)
  have present: "cfg_smtp_password ?sec = Accepted ''hunter2''"
    by simp
  have same: "\<forall>c msg. get_email_config checking_env (Some ?sec) = Inr (Some c) \<longrightarrow>
       build_message checking_env c ''a@x.com'' ''Hi'' ''hello'' None False = Inr msg \<longrightarrow>
       fst (fst (send checking_env (c\<lparr>smtp_password := ''letmein''\<rparr>) msg
                   (recipient_list ''a@x.com'' None None))) =
       fst (fst (send checking_env c msg (recipient_list ''a@x.com'' None None)))"
    by (simp add: changed_password_resolves send_checking)
  from password_only_through_transport[where env = checking_env and config = "Some ?sec"
         and sec = ?sec and to_addr = "''a@x.com''" and subj = "''Hi''" and body = "''hello''"
         and cc = None and bcc = None and is_html = False and old_pw = "''hunter2''"
         and new_pw = "''letmein''"]
       run present same rejected
  show ?thesis by blast
qed

end
